theory Spec2Isabelle
  imports Main "HOL-Library.Word" "HOL-Library.Sublist"
begin

unbundle bit_operations_syntax

section \<open>Data model of package arp\<close>

text \<open>
  Go's \<open>byte\<close> is an 8-bit word, \<open>type ipv4 [4]byte\<close> is a fixed array of four of
  them (a 4-tuple, so that no other length exists), and \<open>net.HardwareAddr\<close> is a byte
  slice of any length. \<open>slices.Equal\<close> on two hardware addresses is equality of the
  byte lists.
\<close>

type_synonym byte = "8 word"
type_synonym ipv4 = "byte \<times> byte \<times> byte \<times> byte"
type_synonym HardwareAddr = "byte list"
type_synonym table = "ipv4 \<rightharpoonup> HardwareAddr"

text \<open>The two \<open>iota + 1\<close> constant blocks; Go's \<open>int\<close> with bitwise \<open>&\<close>.\<close>

definition Print2Log :: int where "Print2Log = 1"
definition Print2Console :: int where "Print2Console = 2"

definition LogAllPackets :: int where "LogAllPackets = 1"
definition LogNewPairs :: int where "LogNewPairs = 2"

definition logWarningPrefix :: string where "logWarningPrefix = ''[WARNING] ''"
definition logChangeMappingPrefix :: string where "logChangeMappingPrefix = ''[CHANGE MAPPING] ''"
definition logNewMappingPrefix :: string where "logNewMappingPrefix = ''[NEW MAPPING] ''"

text \<open>
  The fields of gopacket's \<open>layers.ARP\<close> that the package reads. \<open>ARPRequest\<close> and
  \<open>ARPReply\<close> are the operation codes 1 and 2.
\<close>

record ARP =
  HwAddressSize :: byte
  ProtAddressSize :: byte
  Operation :: "16 word"
  SourceHwAddress :: "byte list"
  SourceProtAddress :: "byte list"
  DstHwAddress :: "byte list"
  DstProtAddress :: "byte list"

definition ARPRequest :: "16 word" where "ARPRequest = 1"
definition ARPReply :: "16 word" where "ARPReply = 2"

text \<open>
  A \<open>Logger\<close> holds the writers behind its \<open>log.Logger\<close>, the mode bits and the
  table. The text it prints is returned by the operations as a list of lines, each without
  the time stamp that \<open>log.LstdFlags\<close> puts in front and without the final newline.
\<close>

datatype writer = LogFile string | Stdout

record Logger =
  logger :: "writer list"
  mode :: int
  arptable :: table

datatype error = Panic | errorString string | PathError string

section \<open>Rendering done by the Go standard library\<close>

text \<open>
  Modelled from the spec: \<open>net.HardwareAddr.String\<close> of the Go standard library is not
  part of the repository. The spec asks for the colon-hex form; the model follows the
  library's loop: nothing for an empty address, otherwise two lower-case hexadecimal
  digits for each byte, with a colon before every byte but the first.
\<close>

definition hexDigit :: string where "hexDigit = ''0123456789abcdef''"

fun HardwareAddr_loop :: "nat \<Rightarrow> byte list \<Rightarrow> string \<Rightarrow> string" where
  "HardwareAddr_loop i [] buf = buf"
| "HardwareAddr_loop i (b # bs) buf =
     HardwareAddr_loop (Suc i) bs
       ((if 0 < i then buf @ '':'' else buf)
          @ [hexDigit ! unat (drop_bit 4 b), hexDigit ! unat (b AND 0xF)])"

definition HardwareAddr_String :: "HardwareAddr \<Rightarrow> string" where
  "HardwareAddr_String a = (if length a = 0 then '''' else HardwareAddr_loop 0 a '''')"

text \<open>
  Modelled from the spec: \<open>netip.Addr.String\<close> of the Go standard library, for the
  address built by \<open>netip.AddrFrom4\<close>, is not part of the repository. The spec asks for
  the dotted-decimal form; the model follows the library: each byte in decimal without
  leading zeros, the four of them separated by dots. The verb \<open>%d\<close> of \<open>Printf\<close> on a
  \<open>uint8\<close> prints the same decimal digits.
\<close>

definition digits :: string where "digits = ''0123456789''"

definition appendDecimal :: "string \<Rightarrow> byte \<Rightarrow> string" where
  "appendDecimal b x =
     (let n = unat x;
          b1 = (if 100 \<le> n then b @ [digits ! (n div 100)] else b);
          b2 = (if 10 \<le> n then b1 @ [digits ! (n div 10 mod 10)] else b1)
      in b2 @ [digits ! (n mod 10)])"

definition Addr_String :: "ipv4 \<Rightarrow> string" where
  "Addr_String ip =
     (case ip of (a, b, c, d) \<Rightarrow>
        appendDecimal (appendDecimal (appendDecimal (appendDecimal '''' a @ ''.'') b @ ''.'') c @ ''.'') d)"

definition fmt_d :: "byte \<Rightarrow> string" where
  "fmt_d x = appendDecimal '''' x"

section \<open>The functions of the package\<close>

text \<open>
  The conversion \<open>ipv4(s)\<close> (and \<open>[4]byte(s)\<close>) of a slice to an array: it panics when
  the slice has fewer than four bytes and takes the first four otherwise.
\<close>

definition to_ipv4 :: "byte list \<Rightarrow> error + ipv4" where
  "to_ipv4 s = (case s of a # b # c # d # _ \<Rightarrow> Inr (a, b, c, d) | _ \<Rightarrow> Inl Panic)"

text \<open>\<open>prettyPrint\<close>: the string builder is the string built so far.\<close>

definition prettyPrint :: "ARP \<Rightarrow> error + string" where
  "prettyPrint layer =
     (let op = (if Operation layer = ARPRequest then ''Request''
                else if Operation layer = ARPReply then ''Reply''
                else '''');
          sb1 = ''Operation: '' @ op;
          sb2 = sb1 @ '', Source MAC: '' @ HardwareAddr_String (SourceHwAddress layer)
      in case to_ipv4 (SourceProtAddress layer) of
           Inl e \<Rightarrow> Inl e
         | Inr sip \<Rightarrow>
             (let sb3 = sb2 @ '', Source IP: '' @ Addr_String sip;
                  sb4 = sb3 @ '', Destination MAC: '' @ HardwareAddr_String (DstHwAddress layer)
              in case to_ipv4 (DstProtAddress layer) of
                   Inl e \<Rightarrow> Inl e
                 | Inr dip \<Rightarrow> Inr (sb4 @ '', Destination IP: '' @ Addr_String dip)))"

text \<open>
  A \<open>range\<close> over a Go map visits every entry once, in an order the language leaves
  open. The order is an argument of the model: the list \<open>ks\<close> of keys as the loop
  meets them. A key that is no longer in the map when its turn comes is not produced.
  \<open>range_order\<close> says that a list is such an order for a table.
\<close>

definition range_order :: "ipv4 list \<Rightarrow> table \<Rightarrow> bool" where
  "range_order ks tbl \<longleftrightarrow> distinct ks \<and> set ks = dom tbl"

text \<open>The loop of \<open>Log\<close> taken when the sender IP is in the table: delete the first
  entry that holds the hardware address and stop.\<close>

fun Log_delete_loop :: "ipv4 list \<Rightarrow> HardwareAddr \<Rightarrow> table \<Rightarrow> table" where
  "Log_delete_loop [] hwaddr tbl = tbl"
| "Log_delete_loop (k # ks) hwaddr tbl =
     (case tbl k of
        None \<Rightarrow> Log_delete_loop ks hwaddr tbl
      | Some v \<Rightarrow> if hwaddr = v then tbl(k := None) else Log_delete_loop ks hwaddr tbl)"

definition changeLine :: "ipv4 \<Rightarrow> HardwareAddr \<Rightarrow> ipv4 \<Rightarrow> HardwareAddr \<Rightarrow> string" where
  "changeLine ip1 hw1 ip2 hw2 =
     logChangeMappingPrefix @ ''Previous mapping: '' @ Addr_String ip1 @ '' <-> ''
       @ HardwareAddr_String hw1 @ '', new mapping: '' @ Addr_String ip2 @ '' <-> ''
       @ HardwareAddr_String hw2"

definition newLine :: "ipv4 \<Rightarrow> HardwareAddr \<Rightarrow> string" where
  "newLine ip hw = logNewMappingPrefix @ Addr_String ip @ '' <-> '' @ HardwareAddr_String hw"

text \<open>The loop of \<open>Log\<close> taken when the sender IP is not in the table. It returns
  \<open>found\<close>, the table and the lines printed.\<close>

fun Log_found_loop ::
  "ipv4 list \<Rightarrow> int \<Rightarrow> ipv4 \<Rightarrow> HardwareAddr \<Rightarrow> table \<Rightarrow> bool \<times> table \<times> string list" where
  "Log_found_loop [] m ipaddr hwaddr tbl = (False, tbl, [])"
| "Log_found_loop (k # ks) m ipaddr hwaddr tbl =
     (case tbl k of
        None \<Rightarrow> Log_found_loop ks m ipaddr hwaddr tbl
      | Some v \<Rightarrow>
          if hwaddr = v
          then (True, (tbl(k := None))(ipaddr \<mapsto> hwaddr),
                if m AND LogNewPairs = LogNewPairs then [changeLine k hwaddr ipaddr hwaddr] else [])
          else Log_found_loop ks m ipaddr hwaddr tbl)"

text \<open>A map read \<open>m[k]\<close> in an expression gives the zero value, a nil slice, for a
  missing key.\<close>

definition index0 :: "table \<Rightarrow> ipv4 \<Rightarrow> HardwareAddr" where
  "index0 tbl k = (case tbl k of None \<Rightarrow> [] | Some v \<Rightarrow> v)"

text \<open>
  \<open>Logger.Log\<close>. The result is the updated logger, or the panic that ended the call,
  together with the lines printed up to there.
\<close>

definition Log :: "ipv4 list \<Rightarrow> Logger \<Rightarrow> ARP \<Rightarrow> (error + Logger) \<times> string list" where
  "Log ks l layer =
     (if HwAddressSize layer \<noteq> 6
      then (Inr l, [logWarningPrefix @ ''Packet MAC address size is not correct: ''
                      @ fmt_d (HwAddressSize layer) @ '', but should be 6 bytes''])
      else if ProtAddressSize layer \<noteq> 4
      then (Inr l, [logWarningPrefix @ ''Packet IPv4 address size is not correct: ''
                      @ fmt_d (ProtAddressSize layer) @ '', but should be 4 bytes''])
      else
        case (if mode l AND LogAllPackets = LogAllPackets
              then (case prettyPrint layer of Inl e \<Rightarrow> Inl e | Inr s \<Rightarrow> Inr [s])
              else Inr []) of
          Inl e \<Rightarrow> (Inl e, [])
        | Inr dump \<Rightarrow>
            (case to_ipv4 (SourceProtAddress layer) of
               Inl e \<Rightarrow> (Inl e, dump)
             | Inr ipaddr \<Rightarrow>
                 (let hwaddr = SourceHwAddress layer
                  in case arptable l ipaddr of
                       Some addr \<Rightarrow>
                         if hwaddr = addr then (Inr l, dump)
                         else
                           (let tbl = Log_delete_loop ks hwaddr (arptable l);
                                ev = (if mode l AND LogNewPairs = LogNewPairs
                                      then [changeLine ipaddr (index0 tbl ipaddr) ipaddr hwaddr]
                                      else [])
                            in (Inr (l\<lparr>arptable := tbl(ipaddr \<mapsto> hwaddr)\<rparr>), dump @ ev))
                     | None \<Rightarrow>
                         (case Log_found_loop ks (mode l) ipaddr hwaddr (arptable l) of
                            (found, tbl, ev) \<Rightarrow>
                              if \<not> found
                              then (Inr (l\<lparr>arptable := tbl(ipaddr \<mapsto> hwaddr)\<rparr>),
                                    dump @ ev @ (if mode l AND LogNewPairs = LogNewPairs
                                                 then [newLine ipaddr hwaddr] else []))
                              else (Inr (l\<lparr>arptable := tbl\<rparr>), dump @ ev)))))"

text \<open>
  \<open>NewLogger\<close>. \<open>os.OpenFile\<close> is the argument \<open>openable\<close>, which says for which
  names it succeeds; the second component of the result lists the names it was called
  with, the files the call may have created.
\<close>

definition NewLogger ::
  "(string \<Rightarrow> bool) \<Rightarrow> int \<Rightarrow> int \<Rightarrow> string \<Rightarrow> (error + Logger) \<times> string list" where
  "NewLogger openable dest m filename =
     (if dest = 0 \<or> m = 0
      then (Inl (errorString ''dest and mode arguments should be specified''), [])
      else if dest AND Print2Log = Print2Log \<and> \<not> openable filename
      then (Inl (PathError filename), [filename])
      else
        (let writers1 = (if dest AND Print2Log = Print2Log then [LogFile filename] else []);
             writers2 = (if dest AND Print2Console = Print2Console
                         then writers1 @ [Stdout] else writers1)
         in (Inr \<lparr>logger = writers2, mode = m, arptable = Map.empty\<rparr>,
             if dest AND Print2Log = Print2Log then [filename] else [])))"

text \<open>
  The loop of \<open>processPackets\<close> in \<open>main\<close>, over the packets that arrive before the
  context is done: a packet without an ARP layer is skipped, every other one goes to
  \<open>Log\<close>. Each packet comes with the order in which the map ranges of that call run.
\<close>

fun processPackets ::
  "Logger \<Rightarrow> (ipv4 list \<times> ARP option) list \<Rightarrow> (error + Logger) \<times> string list" where
  "processPackets l [] = (Inr l, [])"
| "processPackets l ((ks, None) # ps) = processPackets l ps"
| "processPackets l ((ks, Some layer) # ps) =
     (case Log ks l layer of
        (Inl e, out) \<Rightarrow> (Inl e, out)
      | (Inr l', out) \<Rightarrow> (case processPackets l' ps of (r, out') \<Rightarrow> (r, out @ out')))"

text \<open>
  The loggers a run can be in: the one \<open>NewLogger\<close> returns, and the one left by any
  call of \<open>Log\<close> that returns, made on a reachable logger with a range order of its
  table.
\<close>

inductive reachable :: "Logger \<Rightarrow> bool" where
  reachable_new: "NewLogger openable dest m filename = (Inr l, fs) \<Longrightarrow> reachable l"
| reachable_Log:
    "reachable l \<Longrightarrow> range_order ks (arptable l) \<Longrightarrow> Log ks l layer = (Inr l', out)
       \<Longrightarrow> reachable l'"

section \<open>What the specification says, in its own words\<close>

text \<open>
  The table update of the specification's classification algorithm (section 4.2, steps 1
  to 4), written from the specification and not from the code, with \<open>findByHwAddr\<close> of
  section 4.1 as a scan of the entries in the order \<open>ks\<close>.
\<close>

definition spec_findByHwAddr :: "ipv4 list \<Rightarrow> table \<Rightarrow> HardwareAddr \<Rightarrow> ipv4 option" where
  "spec_findByHwAddr ks tbl hw = find (\<lambda>k. tbl k = Some hw) ks"

definition spec_update :: "ipv4 list \<Rightarrow> table \<Rightarrow> ipv4 \<Rightarrow> HardwareAddr \<Rightarrow> table" where
  "spec_update ks tbl ip hw =
     (case tbl ip of
        Some hw' \<Rightarrow>
          if hw' = hw then tbl
          else (case spec_findByHwAddr ks tbl hw of
                  Some ip2 \<Rightarrow> if ip2 \<noteq> ip then (tbl(ip2 := None))(ip \<mapsto> hw) else tbl(ip \<mapsto> hw)
                | None \<Rightarrow> tbl(ip \<mapsto> hw))
      | None \<Rightarrow>
          (case spec_findByHwAddr ks tbl hw of
             Some ip2 \<Rightarrow> (tbl(ip2 := None))(ip \<mapsto> hw)
           | None \<Rightarrow> tbl(ip \<mapsto> hw)))"

text \<open>
  The two renderings the specification names for the raw dump (section 4.2): a hardware
  address in colon-hex form, two hexadecimal digits for each byte with colons between the
  bytes, and an IP address in dotted-decimal form, the decimal numerals of its four bytes
  with dots between them.
\<close>

definition hex2 :: "byte \<Rightarrow> string" where
  "hex2 b = [hexDigit ! (unat b div 16), hexDigit ! (unat b mod 16)]"

fun spec_colon_hex :: "byte list \<Rightarrow> string" where
  "spec_colon_hex [] = []"
| "spec_colon_hex [b] = hex2 b"
| "spec_colon_hex (b # bs) = hex2 b @ '':'' @ spec_colon_hex bs"

fun spec_decimal :: "nat \<Rightarrow> string" where
  "spec_decimal n = (if n < 10 then [digits ! n] else spec_decimal (n div 10) @ [digits ! (n mod 10)])"

declare spec_decimal.simps [simp del]

definition spec_dotted_decimal :: "ipv4 \<Rightarrow> string" where
  "spec_dotted_decimal ip =
     (case ip of (a, b, c, d) \<Rightarrow>
        spec_decimal (unat a) @ ''.'' @ spec_decimal (unat b) @ ''.''
          @ spec_decimal (unat c) @ ''.'' @ spec_decimal (unat d))"

text \<open>
  A valid announcement passes the two size checks of \<open>Log\<close> and, as gopacket's decoder
  delivers it, has address slices of the declared sizes.
\<close>

definition passes_validation :: "ARP \<Rightarrow> bool" where
  "passes_validation layer \<longleftrightarrow> HwAddressSize layer = 6 \<and> ProtAddressSize layer = 4"

definition declared_sizes_hold :: "ARP \<Rightarrow> bool" where
  "declared_sizes_hold layer \<longleftrightarrow>
     length (SourceHwAddress layer) = unat (HwAddressSize layer) \<and>
     length (SourceProtAddress layer) = unat (ProtAddressSize layer) \<and>
     length (DstHwAddress layer) = unat (HwAddressSize layer) \<and>
     length (DstProtAddress layer) = unat (ProtAddressSize layer)"

definition valid_announcement :: "ARP \<Rightarrow> bool" where
  "valid_announcement layer \<longleftrightarrow> passes_validation layer \<and> declared_sizes_hold layer"

text \<open>The raw-dump lines of one call: the line of \<open>prettyPrint\<close> under dump-all mode.\<close>

definition dumpLines :: "int \<Rightarrow> ARP \<Rightarrow> string list" where
  "dumpLines m layer =
     (if m AND LogAllPackets = LogAllPackets
      then (case prettyPrint layer of Inl e \<Rightarrow> [] | Inr s \<Rightarrow> [s]) else [])"

text \<open>The classification lines are those tagged as a changed or a new mapping.\<close>

definition classification :: "string \<Rightarrow> bool" where
  "classification s \<longleftrightarrow> prefix logChangeMappingPrefix s \<or> prefix logNewMappingPrefix s"

section \<open>Concrete inputs\<close>

definition ipA :: ipv4 where "ipA = (192, 168, 2, 10)"
definition ipB :: ipv4 where "ipB = (192, 168, 2, 20)"
definition hwM1 :: HardwareAddr where "hwM1 = [0x00, 0x1a, 0x2b, 0x3c, 0x4d, 0x5e]"
definition hwM2 :: HardwareAddr where "hwM2 = [0xde, 0xad, 0xbe, 0xef, 0x00, 0x07]"

definition announce :: "ipv4 \<Rightarrow> HardwareAddr \<Rightarrow> ARP" where
  "announce ip hw =
     (case ip of (a, b, c, d) \<Rightarrow>
        \<lparr>HwAddressSize = 6, ProtAddressSize = 4, Operation = ARPRequest,
         SourceHwAddress = hw, SourceProtAddress = [a, b, c, d],
         DstHwAddress = [0, 0, 0, 0, 0, 0], DstProtAddress = [192, 168, 2, 254]\<rparr>)"

definition exLogger :: "int \<Rightarrow> table \<Rightarrow> Logger" where
  "exLogger m tbl = \<lparr>logger = [Stdout], mode = m, arptable = tbl\<rparr>"

definition shortHw :: ARP where
  "shortHw = (announce ipA hwM1)\<lparr>HwAddressSize := 5, SourceHwAddress := [0x00, 0x1a, 0x2b, 0x3c, 0x4d]\<rparr>"

definition shortSrc :: ARP where
  "shortSrc = (announce ipA hwM1)\<lparr>SourceProtAddress := [192, 168]\<rparr>"

definition shortDst :: ARP where
  "shortDst = (announce ipA hwM1)\<lparr>DstProtAddress := [192, 168, 2]\<rparr>"

definition replyA :: ARP where
  "replyA = (announce ipA hwM1)\<lparr>Operation := ARPReply\<rparr>"

section \<open>Facts about the loops and the renderers\<close>

lemmas ex_defs = ipA_def ipB_def hwM1_def hwM2_def announce_def exLogger_def
lemmas render_defs = HardwareAddr_String_def hexDigit_def Addr_String_def appendDecimal_def
  digits_def fmt_d_def Let_def
lemmas const_defs = LogAllPackets_def LogNewPairs_def logWarningPrefix_def
  logChangeMappingPrefix_def logNewMappingPrefix_def ARPRequest_def ARPReply_def
lemmas valid_defs = valid_announcement_def passes_validation_def declared_sizes_hold_def

lemma to_ipv4_length: "to_ipv4 s = Inl e \<longleftrightarrow> e = Panic \<and> length s < 4"
  by (auto simp: to_ipv4_def split: list.splits)

lemma to_ipv4_Inr: "4 \<le> length s \<Longrightarrow> \<exists>ip. to_ipv4 s = Inr ip"
  by (cases "to_ipv4 s") (auto simp: to_ipv4_length)

lemma Log_found_loop_find:
  "Log_found_loop ks m ip hw tbl =
     (case find (\<lambda>k. tbl k = Some hw) ks of
        None \<Rightarrow> (False, tbl, [])
      | Some k \<Rightarrow> (True, (tbl(k := None))(ip \<mapsto> hw),
                   if m AND LogNewPairs = LogNewPairs then [changeLine k hw ip hw] else []))"
  by (induction ks) (auto split: option.splits)

lemma Log_delete_loop_find:
  "Log_delete_loop ks hw tbl =
     (case find (\<lambda>k. tbl k = Some hw) ks of None \<Rightarrow> tbl | Some k \<Rightarrow> tbl(k := None))"
  by (induction ks) (auto split: option.splits)

lemma prettyPrint_prefix: "prettyPrint layer = Inr s \<Longrightarrow> prefix ''Operation: '' s"
  by (auto simp: prettyPrint_def Let_def split: sum.splits)

lemma Operation_untagged:
  "prefix ''Operation: '' s \<Longrightarrow>
     \<not> prefix logWarningPrefix s \<and> \<not> prefix logChangeMappingPrefix s
       \<and> \<not> prefix logNewMappingPrefix s"
  by (auto simp: prefix_def const_defs)

lemma prettyPrint_total:
  assumes "4 \<le> length (SourceProtAddress layer)" "4 \<le> length (DstProtAddress layer)"
  shows "\<exists>s. prettyPrint layer = Inr s"
proof -
  obtain sip dip where "to_ipv4 (SourceProtAddress layer) = Inr sip"
      "to_ipv4 (DstProtAddress layer) = Inr dip"
    using assms to_ipv4_Inr by blast
  then show ?thesis by (simp add: prettyPrint_def Let_def)
qed

lemma prettyPrint_panic:
  assumes "length (SourceProtAddress layer) < 4 \<or> length (DstProtAddress layer) < 4"
  shows "prettyPrint layer = Inl Panic"
proof (cases "to_ipv4 (SourceProtAddress layer)")
  case (Inl e)
  then have "e = Panic" by (simp add: to_ipv4_length)
  with Inl show ?thesis by (simp add: prettyPrint_def Let_def)
next
  case (Inr sip)
  then have "\<not> length (SourceProtAddress layer) < 4"
    using to_ipv4_length [of "SourceProtAddress layer" Panic] by simp
  with assms have "to_ipv4 (DstProtAddress layer) = Inl Panic"
    by (simp add: to_ipv4_length)
  with Inr show ?thesis by (simp add: prettyPrint_def Let_def)
qed

lemma dump_returns:
  assumes "4 \<le> length (SourceProtAddress layer)"
    "m AND LogAllPackets = LogAllPackets \<longrightarrow> 4 \<le> length (DstProtAddress layer)"
  shows "(if m AND LogAllPackets = LogAllPackets
          then (case prettyPrint layer of Inl e \<Rightarrow> Inl e | Inr s \<Rightarrow> Inr [s])
          else Inr []) = Inr (dumpLines m layer)"
proof (cases "m AND LogAllPackets = LogAllPackets")
  case True
  with assms prettyPrint_total [of layer] obtain s where "prettyPrint layer = Inr s" by blast
  with True show ?thesis by (simp add: dumpLines_def)
next
  case False
  then show ?thesis by (simp add: dumpLines_def)
qed

lemma Log_returns:
  assumes "passes_validation layer" "to_ipv4 (SourceProtAddress layer) = Inr ip"
    "mode l AND LogAllPackets = LogAllPackets \<longrightarrow> 4 \<le> length (DstProtAddress layer)"
    "SourceHwAddress layer = hw"
  shows "Log ks l layer =
     (case arptable l ip of
        Some addr \<Rightarrow>
          if hw = addr then (Inr l, dumpLines (mode l) layer)
          else (Inr (l\<lparr>arptable := (Log_delete_loop ks hw (arptable l))(ip \<mapsto> hw)\<rparr>),
                dumpLines (mode l) layer @
                  (if mode l AND LogNewPairs = LogNewPairs
                   then [changeLine ip (index0 (Log_delete_loop ks hw (arptable l)) ip) ip hw]
                   else []))
      | None \<Rightarrow>
          (case find (\<lambda>k. arptable l k = Some hw) ks of
             None \<Rightarrow> (Inr (l\<lparr>arptable := (arptable l)(ip \<mapsto> hw)\<rparr>),
                       dumpLines (mode l) layer @
                         (if mode l AND LogNewPairs = LogNewPairs then [newLine ip hw] else []))
           | Some k \<Rightarrow> (Inr (l\<lparr>arptable := ((arptable l)(k := None))(ip \<mapsto> hw)\<rparr>),
                         dumpLines (mode l) layer @
                           (if mode l AND LogNewPairs = LogNewPairs
                            then [changeLine k hw ip hw] else []))))"
proof -
  have v: "HwAddressSize layer = 6" "ProtAddressSize layer = 4"
    using assms(1) by (simp_all add: passes_validation_def)
  have "4 \<le> length (SourceProtAddress layer)"
    using assms(2) to_ipv4_length [of "SourceProtAddress layer" Panic] by (cases "length (SourceProtAddress layer) < 4") simp_all
  note d = dump_returns [OF this assms(3)]
  show ?thesis
    using v assms(2,4)
    apply (simp only: Log_def d Log_found_loop_find)
    apply (simp add: Let_def split: option.splits)
    done
qed

lemma Log_valid:
  assumes "valid_announcement layer" "to_ipv4 (SourceProtAddress layer) = Inr ip"
    "SourceHwAddress layer = hw"
  shows "Log ks l layer =
     (case arptable l ip of
        Some addr \<Rightarrow>
          if hw = addr then (Inr l, dumpLines (mode l) layer)
          else (Inr (l\<lparr>arptable := (Log_delete_loop ks hw (arptable l))(ip \<mapsto> hw)\<rparr>),
                dumpLines (mode l) layer @
                  (if mode l AND LogNewPairs = LogNewPairs
                   then [changeLine ip (index0 (Log_delete_loop ks hw (arptable l)) ip) ip hw]
                   else []))
      | None \<Rightarrow>
          (case find (\<lambda>k. arptable l k = Some hw) ks of
             None \<Rightarrow> (Inr (l\<lparr>arptable := (arptable l)(ip \<mapsto> hw)\<rparr>),
                       dumpLines (mode l) layer @
                         (if mode l AND LogNewPairs = LogNewPairs then [newLine ip hw] else []))
           | Some k \<Rightarrow> (Inr (l\<lparr>arptable := ((arptable l)(k := None))(ip \<mapsto> hw)\<rparr>),
                         dumpLines (mode l) layer @
                           (if mode l AND LogNewPairs = LogNewPairs
                            then [changeLine k hw ip hw] else []))))"
  using assms by (intro Log_returns) (simp_all add: valid_defs)

lemma Log_panics:
  assumes "passes_validation layer"
    "length (SourceProtAddress layer) < 4
     \<or> (mode l AND LogAllPackets = LogAllPackets \<and> length (DstProtAddress layer) < 4)"
  shows "Log ks l layer = (Inl Panic, [])"
proof -
  have v: "HwAddressSize layer = 6" "ProtAddressSize layer = 4"
    using assms(1) by (simp_all add: passes_validation_def)
  show ?thesis
  proof (cases "mode l AND LogAllPackets = LogAllPackets")
    case True
    with assms(2) have "prettyPrint layer = Inl Panic" by (auto intro: prettyPrint_panic)
    with True v show ?thesis by (simp add: Log_def)
  next
    case False
    with assms(2) have "to_ipv4 (SourceProtAddress layer) = Inl Panic"
      by (simp add: to_ipv4_length)
    with False v show ?thesis by (simp add: Log_def)
  qed
qed

lemma dumpLines_Operation:
  assumes "x \<in> set (dumpLines m layer)" shows "prefix ''Operation: '' x"
proof (cases "prettyPrint layer")
  case (Inl e)
  with assms show ?thesis
    by (cases "m AND LogAllPackets = LogAllPackets") (simp_all add: dumpLines_def)
next
  case (Inr t)
  with assms have "x = t"
    by (cases "m AND LogAllPackets = LogAllPackets") (simp_all add: dumpLines_def)
  with Inr show ?thesis by (simp add: prettyPrint_prefix)
qed

lemma dumpLines_untagged:
  "filter (prefix logChangeMappingPrefix) (dumpLines m layer) = []
   \<and> filter (prefix logNewMappingPrefix) (dumpLines m layer) = []
   \<and> filter (prefix logWarningPrefix) (dumpLines m layer) = []
   \<and> filter classification (dumpLines m layer) = []"
  unfolding filter_empty_conv classification_def
  using dumpLines_Operation Operation_untagged by blast

lemma find_False: "find (\<lambda>k. False) ks = None"
  by (induction ks) simp_all

lemma line_tags:
  "prefix logChangeMappingPrefix (changeLine a h b g)"
  "prefix logNewMappingPrefix (newLine a h)"
  "\<not> prefix logNewMappingPrefix (changeLine a h b g)"
  "\<not> prefix logChangeMappingPrefix (newLine a h)"
  "classification (changeLine a h b g)"
  "classification (newLine a h)"
  by (simp_all add: changeLine_def newLine_def const_defs classification_def)

lemma find_unique:
  assumes "range_order ks tbl" "tbl k = Some hw" "\<forall>k'. tbl k' = Some hw \<longrightarrow> k' = k"
  shows "find (\<lambda>k. tbl k = Some hw) ks = Some k"
proof (cases "find (\<lambda>k. tbl k = Some hw) ks")
  case None
  note find_None_iff [THEN iffD1, OF None]
  moreover have "k \<in> set ks" using assms(1,2) by (auto simp: range_order_def)
  ultimately show ?thesis using assms(2) by blast
next
  case (Some k')
  then have "tbl k' = Some hw" by (auto simp: find_Some_iff)
  with assms(3) have "k' = k" by blast
  with Some show ?thesis by (simp only:)
qed

lemma find_absent:
  assumes "\<forall>k. tbl k \<noteq> Some hw"
  shows "find (\<lambda>k. tbl k = Some hw) ks = None"
  using assms by (simp add: find_None_iff)

lemma Log_lines:
  assumes "valid_announcement layer" "to_ipv4 (SourceProtAddress layer) = Inr ip"
    "SourceHwAddress layer = hw"
  shows "\<exists>ev. snd (Log ks l layer) = dumpLines (mode l) layer @ ev
           \<and> (mode l AND LogNewPairs \<noteq> LogNewPairs \<longrightarrow> ev = [])
           \<and> (arptable l ip = Some hw \<longrightarrow> ev = [])
           \<and> (mode l AND LogNewPairs = LogNewPairs \<and> arptable l ip \<noteq> Some hw
                \<longrightarrow> length ev = 1)
           \<and> filter classification ev = ev"
  by (simp add: Log_valid [OF assms] line_tags split: option.splits)

lemma spec_update_sets: "spec_update ks tbl ip hw ip = Some hw"
  by (simp add: spec_update_def split: option.splits)

lemma spec_update_noop: "tbl ip = Some hw \<Longrightarrow> spec_update ks tbl ip hw = tbl"
  by (simp add: spec_update_def)

lemma valid_announce: "length hw = 6 \<Longrightarrow> valid_announcement (announce (a, b, c, d) hw)"
  by (simp add: valid_defs announce_def)

lemma announce_sender:
  "to_ipv4 (SourceProtAddress (announce (a, b, c, d) hw)) = Inr (a, b, c, d)"
  "SourceHwAddress (announce (a, b, c, d) hw) = hw"
  by (simp_all add: announce_def to_ipv4_def)

lemma prettyPrint_announce:
  "prettyPrint (announce (a, b, c, d) hw)
     = Inr (''Operation: Request, Source MAC: '' @ HardwareAddr_String hw @ '', Source IP: ''
            @ Addr_String (a, b, c, d)
            @ '', Destination MAC: 00:00:00:00:00:00, Destination IP: 192.168.2.254'')"
  by (simp add: prettyPrint_def announce_def to_ipv4_def ARPRequest_def)
    (simp add: render_defs)

lemma render_examples:
  "Addr_String ipA = ''192.168.2.10''"
  "Addr_String ipB = ''192.168.2.20''"
  "HardwareAddr_String hwM1 = ''00:1a:2b:3c:4d:5e''"
  "HardwareAddr_String hwM2 = ''de:ad:be:ef:00:07''"
  by (simp_all add: ex_defs render_defs)

lemma example_facts:
  "valid_announcement (announce ipA hwM1)"
  "valid_announcement (announce ipB hwM1)"
  "valid_announcement (announce ipA hwM2)"
  "to_ipv4 (SourceProtAddress (announce ipA hw)) = Inr ipA"
  "to_ipv4 (SourceProtAddress (announce ipB hw)) = Inr ipB"
  "SourceHwAddress (announce ipA hw) = hw"
  "SourceHwAddress (announce ipB hw) = hw"
  "ipB \<noteq> ipA"
  "hwM2 \<noteq> hwM1"
  by (simp_all add: ipA_def ipB_def hwM1_def hwM2_def valid_announce announce_sender)

lemma Log_table_returns:
  assumes "passes_validation layer" "to_ipv4 (SourceProtAddress layer) = Inr ip"
    "mode l AND LogAllPackets = LogAllPackets \<longrightarrow> 4 \<le> length (DstProtAddress layer)"
    "SourceHwAddress layer = hw"
  shows "fst (Log ks l layer) = Inr (l\<lparr>arptable := spec_update ks (arptable l) ip hw\<rparr>)"
proof (cases "arptable l ip")
  case None
  then show ?thesis
    by (simp add: Log_returns [OF assms] spec_update_def spec_findByHwAddr_def split: option.splits)
next
  case (Some addr)
  show ?thesis
  proof (cases "hw = addr")
    case True
    with Some show ?thesis by (simp add: Log_returns [OF assms] spec_update_def)
  next
    case False
    have "k \<noteq> ip" if "find (\<lambda>k. arptable l k = Some hw) ks = Some k" for k
    proof
      assume "k = ip"
      moreover from that have "arptable l k = Some hw" by (auto simp: find_Some_iff)
      ultimately show False using Some False by simp
    qed
    with Some False show ?thesis
      by (simp add: Log_returns [OF assms] spec_update_def spec_findByHwAddr_def
            Log_delete_loop_find split: option.splits)
  qed
qed

lemma Log_table:
  assumes "valid_announcement layer" "to_ipv4 (SourceProtAddress layer) = Inr ip"
    "SourceHwAddress layer = hw"
  shows "fst (Log ks l layer) = Inr (l\<lparr>arptable := spec_update ks (arptable l) ip hw\<rparr>)"
  using assms by (intro Log_table_returns) (simp_all add: valid_defs)

lemma Log_step:
  assumes "Log ks l layer = (Inr l', out)"
  shows "l' = l \<or> (\<exists>ip. l' = l\<lparr>arptable := spec_update ks (arptable l) ip (SourceHwAddress layer)\<rparr>)"
proof (cases "passes_validation layer")
  case False
  then have "fst (Log ks l layer) = Inr l" by (auto simp: passes_validation_def Log_def)
  with assms show ?thesis by simp
next
  case True
  have np: "\<not> (length (SourceProtAddress layer) < 4
     \<or> (mode l AND LogAllPackets = LogAllPackets \<and> length (DstProtAddress layer) < 4))"
  proof
    assume "length (SourceProtAddress layer) < 4
     \<or> (mode l AND LogAllPackets = LogAllPackets \<and> length (DstProtAddress layer) < 4)"
    from Log_panics [OF True this, of ks] assms show False by simp
  qed
  then obtain ip where ip: "to_ipv4 (SourceProtAddress layer) = Inr ip"
    using to_ipv4_Inr [of "SourceProtAddress layer"] by auto
  from np have "mode l AND LogAllPackets = LogAllPackets \<longrightarrow> 4 \<le> length (DstProtAddress layer)"
    by auto
  from Log_table_returns [OF True ip this refl, of ks] assms
  have "l' = l\<lparr>arptable := spec_update ks (arptable l) ip (SourceHwAddress layer)\<rparr>"
    by simp
  then show ?thesis by blast
qed

lemma spec_update_char:
  assumes inj: "\<forall>a b h. tbl a = Some h \<longrightarrow> tbl b = Some h \<longrightarrow> a = b"
    and ro: "range_order ks tbl"
  shows "spec_update ks tbl ip hw
           = (\<lambda>k. if k = ip then Some hw else if tbl k = Some hw then None else tbl k)"
proof (cases "\<exists>k. tbl k = Some hw")
  case False
  then have a: "\<forall>k. tbl k \<noteq> Some hw" by simp
  then have n: "tbl ip \<noteq> Some hw" by blast
  have "spec_update ks tbl ip hw = tbl(ip \<mapsto> hw)"
    using n by (simp add: spec_update_def spec_findByHwAddr_def find_absent [OF a]
        split: option.splits)
  also have "\<dots> = (\<lambda>k. if k = ip then Some hw else if tbl k = Some hw then None else tbl k)"
  proof
    fix x
    from a have "tbl x \<noteq> Some hw" by blast
    then show "(tbl(ip \<mapsto> hw)) x
        = (if x = ip then Some hw else if tbl x = Some hw then None else tbl x)" by simp
  qed
  finally show ?thesis .
next
  case True
  then obtain k where k: "tbl k = Some hw" by blast
  have u: "\<forall>k'. tbl k' = Some hw \<longrightarrow> k' = k" using inj k by blast
  have f: "find (\<lambda>k. tbl k = Some hw) ks = Some k" by (rule find_unique [OF ro k u])
  show ?thesis
  proof (cases "k = ip")
    case True
    with k have "spec_update ks tbl ip hw = tbl" by (simp add: spec_update_noop)
    also have "\<dots> = (\<lambda>k. if k = ip then Some hw else if tbl k = Some hw then None else tbl k)"
    proof
      fix x
      have "tbl x = Some hw \<longleftrightarrow> x = ip" using u k True by blast
      then show "tbl x = (if x = ip then Some hw else if tbl x = Some hw then None else tbl x)"
        by (cases "x = ip") simp_all
    qed
    finally show ?thesis .
  next
    case False
    then have "tbl ip \<noteq> Some hw" using u by blast
    then have "spec_update ks tbl ip hw = (tbl(k := None))(ip \<mapsto> hw)"
      using False by (simp add: spec_update_def spec_findByHwAddr_def f split: option.splits)
    also have "\<dots> = (\<lambda>k. if k = ip then Some hw else if tbl k = Some hw then None else tbl k)"
    proof
      fix x
      have "tbl x = Some hw \<longleftrightarrow> x = k" using u k by blast
      then show "((tbl(k := None))(ip \<mapsto> hw)) x
          = (if x = ip then Some hw else if tbl x = Some hw then None else tbl x)"
        by simp
    qed
    finally show ?thesis .
  qed
qed

lemma spec_update_inj:
  assumes inj: "\<forall>a b h. tbl a = Some h \<longrightarrow> tbl b = Some h \<longrightarrow> a = b"
    and ro: "range_order ks tbl"
    and a: "spec_update ks tbl ip hw a = Some h" and b: "spec_update ks tbl ip hw b = Some h"
  shows "a = b"
proof -
  note c = spec_update_char [OF inj ro, where ip = ip and hw = hw]
  show ?thesis
  proof (cases "a = ip")
    case True
    with a have h: "h = hw" by (simp add: spec_update_sets)
    show ?thesis
    proof (rule ccontr)
      assume "a \<noteq> b"
      with True have "b \<noteq> ip" by simp
      with b h show False by (simp add: c split: if_splits)
    qed
  next
    case False
    show ?thesis
    proof (cases "b = ip")
      case True
      with b have "h = hw" by (simp add: spec_update_sets)
      with a False show ?thesis by (simp add: c split: if_splits)
    next
      case bf: False
      from a False have "tbl a = Some h" by (simp add: c split: if_splits)
      moreover from b bf have "tbl b = Some h" by (simp add: c split: if_splits)
      ultimately show ?thesis using inj by blast
    qed
  qed
qed

lemma reachable_inj:
  assumes "reachable l"
  shows "\<forall>a b h. arptable l a = Some h \<longrightarrow> arptable l b = Some h \<longrightarrow> a = b"
  using assms
proof (induction rule: reachable.induct)
  case (reachable_new openable dest m filename l fs)
  then have "arptable l = Map.empty"
    by (auto simp: NewLogger_def Let_def split: if_splits)
  then show ?case by simp
next
  case (reachable_Log l ks layer l' out)
  from Log_step [OF reachable_Log.hyps(3)] show ?case
  proof
    assume "l' = l"
    with reachable_Log.IH show ?thesis by simp
  next
    assume "\<exists>ip. l' = l\<lparr>arptable := spec_update ks (arptable l) ip (SourceHwAddress layer)\<rparr>"
    then obtain ip where
      t: "arptable l' = spec_update ks (arptable l) ip (SourceHwAddress layer)" by auto
    show ?thesis
      unfolding t using spec_update_inj [OF reachable_Log.IH reachable_Log.hyps(2)] by blast
  qed
qed

lemma reachable_example: "reachable (exLogger 2 [ipA \<mapsto> hwM1])"
proof -
  have n: "NewLogger (\<lambda>f. True) 2 2 [] = (Inr (exLogger 2 Map.empty), [])"
    by (simp add: NewLogger_def Print2Log_def Print2Console_def exLogger_def)
  have r: "range_order [] (arptable (exLogger 2 Map.empty))"
    by (simp add: range_order_def exLogger_def)
  have "fst (Log [] (exLogger 2 Map.empty) (announce ipA hwM1))
      = Inr (exLogger 2 [ipA \<mapsto> hwM1])"
    by (simp add: Log_table [OF example_facts(1,4,6)] spec_update_def spec_findByHwAddr_def
          exLogger_def)
  then have "Log [] (exLogger 2 Map.empty) (announce ipA hwM1)
      = (Inr (exLogger 2 [ipA \<mapsto> hwM1]),
         snd (Log [] (exLogger 2 Map.empty) (announce ipA hwM1)))"
    by (cases "Log [] (exLogger 2 Map.empty) (announce ipA hwM1)") simp
  from reachable_Log [OF reachable_new [OF n] r this] show ?thesis .
qed

lemma unat_hi: "unat (drop_bit 4 (b :: byte)) = unat b div 16"
  by (simp add: unat_drop_bit_eq drop_bit_eq_div unat_div)

lemma unat_lo: "unat ((b :: byte) AND 0xF) = unat b mod 16"
proof -
  have "(15 :: byte) = mask 4" by (simp add: mask_eq_exp_minus_1)
  then have e: "b AND 0xF = take_bit 4 b" by (simp add: take_bit_eq_mask)
  have "unat (take_bit 4 b) = take_bit 4 (unat b)" by (rule unsigned_take_bit_eq)
  also have "\<dots> = unat b mod 16" by (simp add: take_bit_eq_mod)
  finally show ?thesis by (simp only: e)
qed

lemma hex_pair: "[hexDigit ! unat (drop_bit 4 b), hexDigit ! unat (b AND 0xF)] = hex2 b"
  by (simp only: hex2_def unat_hi unat_lo)

lemma HardwareAddr_loop_spec:
  "HardwareAddr_loop i bs buf
     = buf @ (if 0 < i \<and> bs \<noteq> [] then '':'' else []) @ spec_colon_hex bs"
proof (induction bs arbitrary: i buf)
  case Nil
  show ?case by simp
next
  case (Cons b bs)
  note IH = Cons.IH
  have step: "HardwareAddr_loop i (b # bs) buf
      = HardwareAddr_loop (Suc i) bs ((if 0 < i then buf @ '':'' else buf) @ hex2 b)"
    by (simp only: HardwareAddr_loop.simps hex_pair)
  show ?case
  proof (cases "bs = []")
    case True
    show ?thesis by (simp add: True hex_pair)
  next
    case False
    then obtain c cs where bs: "bs = c # cs" by (cases bs) simp_all
    have "HardwareAddr_loop (Suc i) bs ((if 0 < i then buf @ '':'' else buf) @ hex2 b)
        = ((if 0 < i then buf @ '':'' else buf) @ hex2 b) @ '':'' @ spec_colon_hex bs"
      using False by (simp only: IH) simp
    moreover have "spec_colon_hex (b # bs) = hex2 b @ '':'' @ spec_colon_hex bs"
      by (simp add: bs)
    ultimately show ?thesis by (simp only: step) simp
  qed
qed

lemma HardwareAddr_String_spec: "HardwareAddr_String a = spec_colon_hex a"
  by (cases a) (simp_all add: HardwareAddr_String_def HardwareAddr_loop_spec)

lemma appendDecimal_spec: "appendDecimal b x = b @ spec_decimal (unat x)"
proof -
  have lt: "unat x < 256" using unsigned_less [of x, where 'a = nat] by simp
  consider "unat x < 10" | "10 \<le> unat x" "unat x < 100" | "100 \<le> unat x"
    by linarith
  then show ?thesis
  proof cases
    case 1
    then show ?thesis by (simp add: appendDecimal_def Let_def spec_decimal.simps)
  next
    case 2
    then have "unat x div 10 < 10" by simp
    with 2 show ?thesis
      by (simp add: appendDecimal_def Let_def spec_decimal.simps [of "unat x"]
            spec_decimal.simps [of "unat x div 10"])
  next
    case 3
    then have a: "\<not> unat x div 10 < 10" by simp
    have b: "unat x div 10 div 10 < 10" using lt by simp
    have c: "unat x div 10 div 10 = unat x div 100" by (simp add: div_mult2_eq)
    from 3 a b show ?thesis
      by (simp add: appendDecimal_def Let_def spec_decimal.simps [of "unat x"]
            spec_decimal.simps [of "unat x div 10"] spec_decimal.simps [of "unat x div 100"] c)
  qed
qed

lemma Addr_String_spec: "Addr_String ip = spec_dotted_decimal ip"
  by (cases ip) (simp add: Addr_String_def spec_dotted_decimal_def appendDecimal_spec)

section \<open>Malformed announcements\<close>

text \<open>
  C6. Whatever the mode, an announcement whose hardware-address size field is not 6 or
  whose protocol-address size field is not 4 makes \<open>Log\<close> print exactly one line, tagged
  \<open>[WARNING]\<close>, which is neither a classification line nor a raw dump; the logger, and
  so the table, is returned as it was; the call does not panic, and the packet loop goes
  on with the next packet from the same logger.
\<close>

theorem malformed_rejected:
  assumes "HwAddressSize layer \<noteq> 6 \<or> ProtAddressSize layer \<noteq> 4"
  shows "\<exists>w. Log ks l layer = (Inr l, [w]) \<and> prefix logWarningPrefix w
           \<and> \<not> prefix logChangeMappingPrefix w \<and> \<not> prefix logNewMappingPrefix w
           \<and> \<not> prefix ''Operation: '' w
           \<and> processPackets l ((ks, Some layer) # ps)
               = (fst (processPackets l ps), w # snd (processPackets l ps))"
  using assms by (auto simp: Log_def const_defs split: prod.splits)

theorem malformed_rejected_witness:
  "HwAddressSize shortHw = 5
   \<and> (\<exists>w. Log [] (exLogger 3 [ipB \<mapsto> hwM2]) shortHw = (Inr (exLogger 3 [ipB \<mapsto> hwM2]), [w])
          \<and> prefix logWarningPrefix w
          \<and> \<not> prefix logChangeMappingPrefix w \<and> \<not> prefix logNewMappingPrefix w
          \<and> \<not> prefix ''Operation: '' w
          \<and> processPackets (exLogger 3 [ipB \<mapsto> hwM2]) (([], Some shortHw) # [])
               = (fst (processPackets (exLogger 3 [ipB \<mapsto> hwM2]) []),
                  w # snd (processPackets (exLogger 3 [ipB \<mapsto> hwM2]) [])))
   \<and> snd (Log [] (exLogger 3 [ipB \<mapsto> hwM2]) shortHw)
       = [''[WARNING] Packet MAC address size is not correct: 5, but should be 6 bytes'']"
proof -
  have h: "HwAddressSize shortHw \<noteq> 6 \<or> ProtAddressSize shortHw \<noteq> 4"
    by (simp add: shortHw_def ex_defs)
  have e: "snd (Log [] (exLogger 3 [ipB \<mapsto> hwM2]) shortHw)
       = [''[WARNING] Packet MAC address size is not correct: 5, but should be 6 bytes'']"
    by (simp add: Log_def shortHw_def ex_defs const_defs render_defs)
  have s: "HwAddressSize shortHw = 5"
    by (simp add: shortHw_def ex_defs)
  from s e malformed_rejected [OF h, of "[]" "exLogger 3 [ipB \<mapsto> hwM2]" "[]"]
  show ?thesis by blast
qed

section \<open>Construction\<close>

text \<open>
  C9. \<open>NewLogger\<close> returns the configuration error, and no logger, whenever \<open>dest\<close> is
  zero or \<open>mode\<close> is zero, and it has not opened any file by then; when both are nonzero
  it does not return the configuration error.
\<close>

theorem NewLogger_configuration_error:
  "((dest = 0 \<or> m = 0) \<longrightarrow>
      NewLogger openable dest m filename
        = (Inl (errorString ''dest and mode arguments should be specified''), []))
   \<and> (dest \<noteq> 0 \<and> m \<noteq> 0 \<longrightarrow>
      fst (NewLogger openable dest m filename)
        \<noteq> Inl (errorString ''dest and mode arguments should be specified''))"
  by (simp add: NewLogger_def Let_def)

theorem NewLogger_configuration_error_witness:
  "((0::int) = 0 \<or> (3::int) = 0)
   \<and> NewLogger (\<lambda>f. True) 0 3 ''arplogger.log''
       = (Inl (errorString ''dest and mode arguments should be specified''), [])
   \<and> ((3::int) \<noteq> 0 \<and> (2::int) \<noteq> 0)
   \<and> fst (NewLogger (\<lambda>f. True) 3 2 ''arplogger.log'')
       \<noteq> Inl (errorString ''dest and mode arguments should be specified'')
   \<and> NewLogger (\<lambda>f. True) 3 2 ''arplogger.log''
       = (Inr \<lparr>logger = [LogFile ''arplogger.log'', Stdout], mode = 2, arptable = Map.empty\<rparr>,
          [''arplogger.log''])"
  using NewLogger_configuration_error [of 0 3 "\<lambda>f. True" "''arplogger.log''"]
    NewLogger_configuration_error [of 3 2 "\<lambda>f. True" "''arplogger.log''"]
  by (simp add: NewLogger_def Print2Log_def Print2Console_def)

section \<open>Classification\<close>

text \<open>
  C5. From the empty table, a valid announcement of \<open>A\<close> with \<open>M1\<close> under
  report-changes mode leaves the table as exactly \<open>{A: M1}\<close> and prints, after the raw
  dump if there is one, the line tagged \<open>[NEW MAPPING]\<close> for \<open>A <-> M1\<close>: it is the only
  line with that tag, and no line is tagged \<open>[CHANGE MAPPING]\<close>.
\<close>

theorem new_binding_detected:
  assumes "arptable l = Map.empty" "valid_announcement layer"
    "to_ipv4 (SourceProtAddress layer) = Inr A" "SourceHwAddress layer = M1"
    "mode l AND LogNewPairs = LogNewPairs"
  shows "Log ks l layer = (Inr (l\<lparr>arptable := [A \<mapsto> M1]\<rparr>), dumpLines (mode l) layer @ [newLine A M1])
    \<and> filter (prefix logNewMappingPrefix) (snd (Log ks l layer)) = [newLine A M1]
    \<and> filter (prefix logChangeMappingPrefix) (snd (Log ks l layer)) = []"
  using assms(1,5)
  by (simp add: Log_valid [OF assms(2,3,4)] dumpLines_untagged line_tags find_False)

theorem new_binding_detected_witness:
  "arptable (exLogger 3 Map.empty) = Map.empty
   \<and> valid_announcement (announce ipA hwM1)
   \<and> to_ipv4 (SourceProtAddress (announce ipA hwM1)) = Inr ipA
   \<and> SourceHwAddress (announce ipA hwM1) = hwM1
   \<and> mode (exLogger 3 Map.empty) AND LogNewPairs = LogNewPairs
   \<and> Log [] (exLogger 3 Map.empty) (announce ipA hwM1)
       = (Inr (exLogger 3 [ipA \<mapsto> hwM1]),
          [''Operation: Request, Source MAC: 00:1a:2b:3c:4d:5e, Source IP: 192.168.2.10, Destination MAC: 00:00:00:00:00:00, Destination IP: 192.168.2.254'',
           ''[NEW MAPPING] 192.168.2.10 <-> 00:1a:2b:3c:4d:5e''])"
proof -
  have h1: "arptable (exLogger 3 Map.empty) = Map.empty" by (simp add: exLogger_def)
  have h2: "valid_announcement (announce ipA hwM1)"
    by (simp add: ipA_def hwM1_def valid_announce)
  have h3: "to_ipv4 (SourceProtAddress (announce ipA hwM1)) = Inr ipA"
    by (simp add: ipA_def announce_sender)
  have h4: "SourceHwAddress (announce ipA hwM1) = hwM1"
    by (simp add: ipA_def announce_sender)
  have h5: "mode (exLogger 3 Map.empty) AND LogNewPairs = LogNewPairs"
    by (simp add: exLogger_def LogNewPairs_def)
  have d: "dumpLines 3 (announce ipA hwM1)
      = [''Operation: Request, Source MAC: 00:1a:2b:3c:4d:5e, Source IP: 192.168.2.10, Destination MAC: 00:00:00:00:00:00, Destination IP: 192.168.2.254'']"
    by (simp add: dumpLines_def prettyPrint_def to_ipv4_def ex_defs const_defs render_defs)
  have n: "newLine ipA hwM1 = ''[NEW MAPPING] 192.168.2.10 <-> 00:1a:2b:3c:4d:5e''"
    by (simp add: newLine_def ex_defs const_defs render_defs)
  have c: "Log [] (exLogger 3 Map.empty) (announce ipA hwM1)
       = (Inr (exLogger 3 [ipA \<mapsto> hwM1]),
          [''Operation: Request, Source MAC: 00:1a:2b:3c:4d:5e, Source IP: 192.168.2.10, Destination MAC: 00:00:00:00:00:00, Destination IP: 192.168.2.254'',
           ''[NEW MAPPING] 192.168.2.10 <-> 00:1a:2b:3c:4d:5e''])"
    using new_binding_detected [OF h1 h2 h3 h4 h5, of "[]"]
    by (simp add: d n exLogger_def)
  from h1 h2 h3 h4 h5 c show ?thesis by (intro conjI)
qed

text \<open>
  C2. With the table exactly \<open>{A: M1}\<close>, a valid announcement of another IP \<open>B\<close> with
  the same hardware address \<open>M1\<close> leaves the table as exactly \<open>{B: M1}\<close>; under
  report-changes mode the call prints, after the raw dump if there is one, one line tagged
  \<open>[CHANGE MAPPING]\<close> with the previous binding \<open>A <-> M1\<close> and the new one
  \<open>B <-> M1\<close>, and no line tagged \<open>[NEW MAPPING]\<close>.
\<close>

theorem migration_correct:
  assumes "arptable l = [A \<mapsto> M1]" "B \<noteq> A" "valid_announcement layer"
    "to_ipv4 (SourceProtAddress layer) = Inr B" "SourceHwAddress layer = M1"
    "range_order ks (arptable l)"
  shows "fst (Log ks l layer) = Inr (l\<lparr>arptable := [B \<mapsto> M1]\<rparr>)
    \<and> (mode l AND LogNewPairs = LogNewPairs \<longrightarrow>
         snd (Log ks l layer) = dumpLines (mode l) layer @ [changeLine A M1 B M1]
         \<and> filter (prefix logChangeMappingPrefix) (snd (Log ks l layer)) = [changeLine A M1 B M1]
         \<and> filter (prefix logNewMappingPrefix) (snd (Log ks l layer)) = [])"
proof -
  have f: "find (\<lambda>k. arptable l k = Some M1) ks = Some A"
    using assms(1) by (intro find_unique [OF assms(6)]) (auto split: if_splits)
  have n: "arptable l B = None" using assms(1,2) by simp
  have t: "((arptable l)(A := None))(B \<mapsto> M1) = [B \<mapsto> M1]" using assms(1) by simp
  show ?thesis
    by (simp add: Log_valid [OF assms(3,4,5)] n f t dumpLines_untagged line_tags)
qed

theorem migration_correct_witness:
  "arptable (exLogger 2 [ipA \<mapsto> hwM1]) = [ipA \<mapsto> hwM1]
   \<and> ipB \<noteq> ipA
   \<and> valid_announcement (announce ipB hwM1)
   \<and> to_ipv4 (SourceProtAddress (announce ipB hwM1)) = Inr ipB
   \<and> SourceHwAddress (announce ipB hwM1) = hwM1
   \<and> range_order [ipA] (arptable (exLogger 2 [ipA \<mapsto> hwM1]))
   \<and> mode (exLogger 2 [ipA \<mapsto> hwM1]) AND LogNewPairs = LogNewPairs
   \<and> fst (Log [ipA] (exLogger 2 [ipA \<mapsto> hwM1]) (announce ipB hwM1))
       = Inr (exLogger 2 [ipB \<mapsto> hwM1])
   \<and> snd (Log [ipA] (exLogger 2 [ipA \<mapsto> hwM1]) (announce ipB hwM1))
       = [''[CHANGE MAPPING] Previous mapping: 192.168.2.10 <-> 00:1a:2b:3c:4d:5e, new mapping: 192.168.2.20 <-> 00:1a:2b:3c:4d:5e'']"
proof -
  have h1: "arptable (exLogger 2 [ipA \<mapsto> hwM1]) = [ipA \<mapsto> hwM1]"
    by (simp add: exLogger_def)
  have h6: "range_order [ipA] (arptable (exLogger 2 [ipA \<mapsto> hwM1]))"
    by (simp add: exLogger_def range_order_def)
  have h7: "mode (exLogger 2 [ipA \<mapsto> hwM1]) AND LogNewPairs = LogNewPairs"
    by (simp add: exLogger_def LogNewPairs_def)
  have d: "dumpLines (mode (exLogger 2 [ipA \<mapsto> hwM1])) (announce ipB hwM1) = []"
    by (simp add: dumpLines_def exLogger_def LogAllPackets_def)
  have c: "changeLine ipA hwM1 ipB hwM1
      = ''[CHANGE MAPPING] Previous mapping: 192.168.2.10 <-> 00:1a:2b:3c:4d:5e, new mapping: 192.168.2.20 <-> 00:1a:2b:3c:4d:5e''"
    by (simp add: changeLine_def render_examples logChangeMappingPrefix_def)
  note t = migration_correct [OF h1 example_facts(8,2,5,7) h6]
  have r1: "fst (Log [ipA] (exLogger 2 [ipA \<mapsto> hwM1]) (announce ipB hwM1))
       = Inr (exLogger 2 [ipB \<mapsto> hwM1])"
    using t by (simp add: exLogger_def)
  have r2: "snd (Log [ipA] (exLogger 2 [ipA \<mapsto> hwM1]) (announce ipB hwM1))
       = [''[CHANGE MAPPING] Previous mapping: 192.168.2.10 <-> 00:1a:2b:3c:4d:5e, new mapping: 192.168.2.20 <-> 00:1a:2b:3c:4d:5e'']"
    using t h7 by (simp add: d c)
  from h1 example_facts(8,2,5,7) h6 h7 r1 r2 show ?thesis by (intro conjI)
qed

text \<open>
  C4. With \<open>A\<close> bound to \<open>M1\<close> and no entry holding \<open>M2\<close>, a valid announcement of
  \<open>A\<close> with \<open>M2\<close> under report-changes mode sets the entry of \<open>A\<close> to \<open>M2\<close>,
  leaves the other entries alone and prints one line tagged \<open>[CHANGE MAPPING]\<close> with the
  previous binding \<open>A <-> M1\<close> and the new one \<open>A <-> M2\<close>.
\<close>

theorem changed_binding_detected:
  assumes "arptable l A = Some M1" "M2 \<noteq> M1" "\<forall>k. arptable l k \<noteq> Some M2"
    "valid_announcement layer" "to_ipv4 (SourceProtAddress layer) = Inr A"
    "SourceHwAddress layer = M2" "mode l AND LogNewPairs = LogNewPairs"
  shows "Log ks l layer = (Inr (l\<lparr>arptable := (arptable l)(A \<mapsto> M2)\<rparr>),
                           dumpLines (mode l) layer @ [changeLine A M1 A M2])
    \<and> filter (prefix logChangeMappingPrefix) (snd (Log ks l layer)) = [changeLine A M1 A M2]
    \<and> filter (prefix logNewMappingPrefix) (snd (Log ks l layer)) = []"
proof -
  have d: "Log_delete_loop ks M2 (arptable l) = arptable l"
    by (simp add: Log_delete_loop_find find_absent [OF assms(3)])
  show ?thesis
    using assms(1,2,7)
    by (simp add: Log_valid [OF assms(4,5,6)] d index0_def dumpLines_untagged line_tags)
qed

theorem changed_binding_detected_witness:
  "arptable (exLogger 2 [ipA \<mapsto> hwM1]) ipA = Some hwM1
   \<and> hwM2 \<noteq> hwM1
   \<and> (\<forall>k. arptable (exLogger 2 [ipA \<mapsto> hwM1]) k \<noteq> Some hwM2)
   \<and> valid_announcement (announce ipA hwM2)
   \<and> to_ipv4 (SourceProtAddress (announce ipA hwM2)) = Inr ipA
   \<and> SourceHwAddress (announce ipA hwM2) = hwM2
   \<and> mode (exLogger 2 [ipA \<mapsto> hwM1]) AND LogNewPairs = LogNewPairs
   \<and> Log [ipA] (exLogger 2 [ipA \<mapsto> hwM1]) (announce ipA hwM2)
       = (Inr (exLogger 2 [ipA \<mapsto> hwM2]),
          [''[CHANGE MAPPING] Previous mapping: 192.168.2.10 <-> 00:1a:2b:3c:4d:5e, new mapping: 192.168.2.10 <-> de:ad:be:ef:00:07''])"
proof -
  have h1: "arptable (exLogger 2 [ipA \<mapsto> hwM1]) ipA = Some hwM1"
    by (simp add: exLogger_def)
  have h3: "\<forall>k. arptable (exLogger 2 [ipA \<mapsto> hwM1]) k \<noteq> Some hwM2"
    using example_facts(9) by (simp add: exLogger_def)
  have h7: "mode (exLogger 2 [ipA \<mapsto> hwM1]) AND LogNewPairs = LogNewPairs"
    by (simp add: exLogger_def LogNewPairs_def)
  have d: "dumpLines 2 (announce ipA hwM2) = []"
    by (simp add: dumpLines_def LogAllPackets_def)
  have c: "changeLine ipA hwM1 ipA hwM2
      = ''[CHANGE MAPPING] Previous mapping: 192.168.2.10 <-> 00:1a:2b:3c:4d:5e, new mapping: 192.168.2.10 <-> de:ad:be:ef:00:07''"
    by (simp add: changeLine_def render_examples logChangeMappingPrefix_def)
  have r: "Log [ipA] (exLogger 2 [ipA \<mapsto> hwM1]) (announce ipA hwM2)
       = (Inr (exLogger 2 [ipA \<mapsto> hwM2]),
          [''[CHANGE MAPPING] Previous mapping: 192.168.2.10 <-> 00:1a:2b:3c:4d:5e, new mapping: 192.168.2.10 <-> de:ad:be:ef:00:07''])"
    using changed_binding_detected [OF h1 example_facts(9) h3 example_facts(3,4,6) h7, of "[ipA]"]
    by (simp add: d c exLogger_def)
  from h1 example_facts(9) h3 example_facts(3,4,6) h7 r show ?thesis by (intro conjI)
qed

text \<open>
  C3. A valid announcement of \<open>ip\<close> with \<open>hw\<close> is processed twice in a row. The first
  call returns a logger whose table binds \<open>ip\<close> to \<open>hw\<close>; the second call returns that
  same logger and prints nothing but the raw dump, so no classification line. Under
  report-changes mode the first call prints exactly one classification line unless the
  binding was already in the table; and whenever the binding is already in the table a
  call changes nothing and prints no classification line, whatever the mode.
\<close>

theorem repeated_announcement_idempotent:
  assumes "valid_announcement layer" "to_ipv4 (SourceProtAddress layer) = Inr ip"
    "SourceHwAddress layer = hw"
  shows "\<exists>l1 out1. Log ks l layer = (Inr l1, out1)
      \<and> arptable l1 ip = Some hw
      \<and> Log ks' l1 layer = (Inr l1, dumpLines (mode l) layer)
      \<and> filter classification (snd (Log ks' l1 layer)) = []
      \<and> (mode l AND LogNewPairs = LogNewPairs \<and> arptable l ip \<noteq> Some hw
           \<longrightarrow> length (filter classification out1) = 1)
      \<and> (arptable l ip = Some hw \<longrightarrow> l1 = l \<and> filter classification out1 = [])"
proof -
  define l1 where "l1 = l\<lparr>arptable := spec_update ks (arptable l) ip hw\<rparr>"
  obtain ev where ev: "snd (Log ks l layer) = dumpLines (mode l) layer @ ev"
      "arptable l ip = Some hw \<longrightarrow> ev = []"
      "mode l AND LogNewPairs = LogNewPairs \<and> arptable l ip \<noteq> Some hw \<longrightarrow> length ev = 1"
      "filter classification ev = ev"
    using Log_lines [OF assms, of ks l] by blast
  have 1: "Log ks l layer = (Inr l1, dumpLines (mode l) layer @ ev)"
    using Log_table [OF assms, of ks l] ev(1) by (cases "Log ks l layer") (simp add: l1_def)
  have 2: "arptable l1 ip = Some hw" by (simp add: l1_def spec_update_sets)
  have 3: "Log ks' l1 layer = (Inr l1, dumpLines (mode l) layer)"
    using 2 by (simp add: Log_valid [OF assms]) (simp add: l1_def)
  have 4: "arptable l ip = Some hw \<longrightarrow> l1 = l"
    by (simp add: l1_def spec_update_noop)
  show ?thesis
    using 2 ev(2,3) 4 by (simp add: 1 3 ev(4) dumpLines_untagged)
qed

theorem repeated_announcement_idempotent_witness:
  "valid_announcement (announce ipA hwM1)
   \<and> to_ipv4 (SourceProtAddress (announce ipA hwM1)) = Inr ipA
   \<and> SourceHwAddress (announce ipA hwM1) = hwM1
   \<and> mode (exLogger 2 Map.empty) AND LogNewPairs = LogNewPairs
   \<and> arptable (exLogger 2 Map.empty) ipA \<noteq> Some hwM1
   \<and> Log [] (exLogger 2 Map.empty) (announce ipA hwM1)
       = (Inr (exLogger 2 [ipA \<mapsto> hwM1]), [''[NEW MAPPING] 192.168.2.10 <-> 00:1a:2b:3c:4d:5e''])
   \<and> arptable (exLogger 2 [ipA \<mapsto> hwM1]) ipA = Some hwM1
   \<and> Log [ipA] (exLogger 2 [ipA \<mapsto> hwM1]) (announce ipA hwM1)
       = (Inr (exLogger 2 [ipA \<mapsto> hwM1]), [])"
proof -
  have m: "mode (exLogger 2 Map.empty) AND LogNewPairs = LogNewPairs"
    by (simp add: exLogger_def LogNewPairs_def)
  have a: "arptable (exLogger 2 Map.empty) ipA \<noteq> Some hwM1"
    by (simp add: exLogger_def)
  have d: "dumpLines 2 (announce ipA hwM1) = []"
    by (simp add: dumpLines_def LogAllPackets_def)
  have n: "newLine ipA hwM1 = ''[NEW MAPPING] 192.168.2.10 <-> 00:1a:2b:3c:4d:5e''"
    by (simp add: newLine_def render_examples logNewMappingPrefix_def)
  have first: "Log [] (exLogger 2 Map.empty) (announce ipA hwM1)
       = (Inr (exLogger 2 [ipA \<mapsto> hwM1]), [''[NEW MAPPING] 192.168.2.10 <-> 00:1a:2b:3c:4d:5e''])"
    by (simp add: Log_valid [OF example_facts(1,4,6)] d n exLogger_def LogNewPairs_def)
  obtain l1 out1 where
    1: "Log [] (exLogger 2 Map.empty) (announce ipA hwM1) = (Inr l1, out1)"
    and 2: "arptable l1 ipA = Some hwM1"
    and 3: "Log [ipA] l1 (announce ipA hwM1)
              = (Inr l1, dumpLines (mode (exLogger 2 Map.empty)) (announce ipA hwM1))"
    using repeated_announcement_idempotent [OF example_facts(1,4,6),
        of "[]" "exLogger 2 Map.empty" "[ipA]"] by blast
  from 1 first have l1: "l1 = exLogger 2 [ipA \<mapsto> hwM1]" by simp
  have second: "Log [ipA] (exLogger 2 [ipA \<mapsto> hwM1]) (announce ipA hwM1)
       = (Inr (exLogger 2 [ipA \<mapsto> hwM1]), [])"
    using 3 d by (simp add: l1) (simp add: exLogger_def)
  from 2 have b: "arptable (exLogger 2 [ipA \<mapsto> hwM1]) ipA = Some hwM1" by (simp add: l1)
  from example_facts(1,4,6) m a first b second show ?thesis by (intro conjI)
qed

text \<open>
  C7. Under dump-all mode without report-changes mode a valid announcement makes \<open>Log\<close>
  print exactly one line, the raw dump of \<open>prettyPrint\<close>, which is not a classification
  line; the table becomes what the classification algorithm of the specification
  prescribes, and it becomes that under every other mode as well.
\<close>

theorem dump_all_independent:
  assumes "valid_announcement layer" "to_ipv4 (SourceProtAddress layer) = Inr ip"
    "SourceHwAddress layer = hw"
    "mode l AND LogAllPackets = LogAllPackets" "mode l AND LogNewPairs \<noteq> LogNewPairs"
  shows "\<exists>s. prettyPrint layer = Inr s
      \<and> Log ks l layer = (Inr (l\<lparr>arptable := spec_update ks (arptable l) ip hw\<rparr>), [s])
      \<and> \<not> classification s
      \<and> (\<forall>m'. fst (Log ks (l\<lparr>mode := m'\<rparr>) layer)
                 = Inr (l\<lparr>mode := m', arptable := spec_update ks (arptable l) ip hw\<rparr>))"
proof -
  obtain s where s: "prettyPrint layer = Inr s"
    using prettyPrint_total [of layer] assms(1) by (auto simp: valid_defs)
  then have d: "dumpLines (mode l) layer = [s]" using assms(4) by (simp add: dumpLines_def)
  obtain ev where "snd (Log ks l layer) = dumpLines (mode l) layer @ ev"
      "mode l AND LogNewPairs \<noteq> LogNewPairs \<longrightarrow> ev = []"
    using Log_lines [OF assms(1,2,3), of ks l] by blast
  with d assms(5) have o: "snd (Log ks l layer) = [s]" by simp
  have c: "\<not> classification s"
    using prettyPrint_prefix [OF s] Operation_untagged by (auto simp: classification_def)
  have t: "fst (Log ks l' layer) = Inr (l'\<lparr>arptable := spec_update ks (arptable l') ip hw\<rparr>)" for l'
    by (rule Log_table [OF assms(1,2,3)])
  have "Log ks l layer = (Inr (l\<lparr>arptable := spec_update ks (arptable l) ip hw\<rparr>), [s])"
    using t [of l] o by (cases "Log ks l layer") simp
  moreover have "fst (Log ks (l\<lparr>mode := m'\<rparr>) layer)
      = Inr (l\<lparr>mode := m', arptable := spec_update ks (arptable l) ip hw\<rparr>)" for m'
    using t [of "l\<lparr>mode := m'\<rparr>"] by simp
  ultimately show ?thesis using s c by blast
qed

theorem dump_all_independent_witness:
  "valid_announcement (announce ipB hwM1)
   \<and> to_ipv4 (SourceProtAddress (announce ipB hwM1)) = Inr ipB
   \<and> SourceHwAddress (announce ipB hwM1) = hwM1
   \<and> mode (exLogger 1 [ipA \<mapsto> hwM1]) AND LogAllPackets = LogAllPackets
   \<and> mode (exLogger 1 [ipA \<mapsto> hwM1]) AND LogNewPairs \<noteq> LogNewPairs
   \<and> Log [ipA] (exLogger 1 [ipA \<mapsto> hwM1]) (announce ipB hwM1)
       = (Inr (exLogger 1 [ipB \<mapsto> hwM1]),
          [''Operation: Request, Source MAC: 00:1a:2b:3c:4d:5e, Source IP: 192.168.2.20, Destination MAC: 00:00:00:00:00:00, Destination IP: 192.168.2.254''])
   \<and> fst (Log [ipA] ((exLogger 1 [ipA \<mapsto> hwM1])\<lparr>mode := 2\<rparr>) (announce ipB hwM1))
       = Inr (exLogger 2 [ipB \<mapsto> hwM1])"
proof -
  have m1: "mode (exLogger 1 [ipA \<mapsto> hwM1]) AND LogAllPackets = LogAllPackets"
    by (simp add: exLogger_def LogAllPackets_def)
  have m2: "mode (exLogger 1 [ipA \<mapsto> hwM1]) AND LogNewPairs \<noteq> LogNewPairs"
    by (simp add: exLogger_def LogNewPairs_def)
  have p: "prettyPrint (announce ipB hwM1)
      = Inr ''Operation: Request, Source MAC: 00:1a:2b:3c:4d:5e, Source IP: 192.168.2.20, Destination MAC: 00:00:00:00:00:00, Destination IP: 192.168.2.254''"
    using prettyPrint_announce [of 192 168 2 20 hwM1] render_examples(2,3)
    by (simp add: ipB_def)
  have u: "spec_update [ipA] [ipA \<mapsto> hwM1] ipB hwM1 = [ipB \<mapsto> hwM1]"
    using example_facts(8) by (simp add: spec_update_def spec_findByHwAddr_def)
  obtain s where
    1: "prettyPrint (announce ipB hwM1) = Inr s"
    and 2: "Log [ipA] (exLogger 1 [ipA \<mapsto> hwM1]) (announce ipB hwM1)
        = (Inr ((exLogger 1 [ipA \<mapsto> hwM1])\<lparr>arptable :=
              spec_update [ipA] (arptable (exLogger 1 [ipA \<mapsto> hwM1])) ipB hwM1\<rparr>), [s])"
    and 3: "\<forall>m'. fst (Log [ipA] ((exLogger 1 [ipA \<mapsto> hwM1])\<lparr>mode := m'\<rparr>) (announce ipB hwM1))
        = Inr ((exLogger 1 [ipA \<mapsto> hwM1])\<lparr>mode := m', arptable :=
              spec_update [ipA] (arptable (exLogger 1 [ipA \<mapsto> hwM1])) ipB hwM1\<rparr>)"
    using dump_all_independent [OF example_facts(2,5,7) m1 m2, of "[ipA]"] by blast
  have r1: "Log [ipA] (exLogger 1 [ipA \<mapsto> hwM1]) (announce ipB hwM1)
       = (Inr (exLogger 1 [ipB \<mapsto> hwM1]),
          [''Operation: Request, Source MAC: 00:1a:2b:3c:4d:5e, Source IP: 192.168.2.20, Destination MAC: 00:00:00:00:00:00, Destination IP: 192.168.2.254''])"
    using 1 2 p u by (simp add: exLogger_def)
  have r2: "fst (Log [ipA] ((exLogger 1 [ipA \<mapsto> hwM1])\<lparr>mode := 2\<rparr>) (announce ipB hwM1))
       = Inr (exLogger 2 [ipB \<mapsto> hwM1])"
    using 3 [rule_format, of 2] u by (simp add: exLogger_def)
  from example_facts(2,5,7) m1 m2 r1 r2 show ?thesis by (intro conjI)
qed

section \<open>The raw dump\<close>

text \<open>
  C8. Under dump-all mode the first line \<open>Log\<close> prints for a valid announcement is the
  line of \<open>prettyPrint\<close>, and every line after it is a classification line. The raw dump
  holds, in this order, the operation (\<open>Request\<close> for a request, \<open>Reply\<close> for a reply,
  nothing for any other code), the source hardware address, the source protocol address,
  the destination hardware address and the destination protocol address, the hardware
  addresses in colon-hex form and the protocol addresses in dotted-decimal form.
\<close>

theorem raw_dump_line:
  assumes "valid_announcement layer" "to_ipv4 (SourceProtAddress layer) = Inr sip"
    "to_ipv4 (DstProtAddress layer) = Inr dip" "mode l AND LogAllPackets = LogAllPackets"
  shows "prettyPrint layer = Inr
      (''Operation: ''
         @ (if Operation layer = ARPRequest then ''Request''
            else if Operation layer = ARPReply then ''Reply'' else '''')
         @ '', Source MAC: '' @ spec_colon_hex (SourceHwAddress layer)
         @ '', Source IP: '' @ spec_dotted_decimal sip
         @ '', Destination MAC: '' @ spec_colon_hex (DstHwAddress layer)
         @ '', Destination IP: '' @ spec_dotted_decimal dip)
    \<and> (\<exists>ev. snd (Log ks l layer) =
      (''Operation: ''
         @ (if Operation layer = ARPRequest then ''Request''
            else if Operation layer = ARPReply then ''Reply'' else '''')
         @ '', Source MAC: '' @ spec_colon_hex (SourceHwAddress layer)
         @ '', Source IP: '' @ spec_dotted_decimal sip
         @ '', Destination MAC: '' @ spec_colon_hex (DstHwAddress layer)
         @ '', Destination IP: '' @ spec_dotted_decimal dip) # ev
      \<and> filter classification ev = ev)"
proof -
  have p: "prettyPrint layer = Inr
      (''Operation: ''
         @ (if Operation layer = ARPRequest then ''Request''
            else if Operation layer = ARPReply then ''Reply'' else '''')
         @ '', Source MAC: '' @ spec_colon_hex (SourceHwAddress layer)
         @ '', Source IP: '' @ spec_dotted_decimal sip
         @ '', Destination MAC: '' @ spec_colon_hex (DstHwAddress layer)
         @ '', Destination IP: '' @ spec_dotted_decimal dip)"
    using assms(2,3)
    by (simp add: prettyPrint_def Let_def HardwareAddr_String_spec Addr_String_spec)
  obtain ev where "snd (Log ks l layer) = dumpLines (mode l) layer @ ev"
      "filter classification ev = ev"
    using Log_lines [OF assms(1,2) refl, of ks l] by blast
  then show ?thesis using assms(4) by (simp add: dumpLines_def p)
qed

theorem raw_dump_line_witness:
  "valid_announcement replyA
   \<and> to_ipv4 (SourceProtAddress replyA) = Inr ipA
   \<and> to_ipv4 (DstProtAddress replyA) = Inr (192, 168, 2, 254)
   \<and> mode (exLogger 1 Map.empty) AND LogAllPackets = LogAllPackets
   \<and> prettyPrint replyA = Inr ''Operation: Reply, Source MAC: 00:1a:2b:3c:4d:5e, Source IP: 192.168.2.10, Destination MAC: 00:00:00:00:00:00, Destination IP: 192.168.2.254''
   \<and> (\<exists>ev. snd (Log [] (exLogger 1 Map.empty) replyA)
          = ''Operation: Reply, Source MAC: 00:1a:2b:3c:4d:5e, Source IP: 192.168.2.10, Destination MAC: 00:00:00:00:00:00, Destination IP: 192.168.2.254'' # ev
        \<and> filter classification ev = ev)"
proof -
  have h1: "valid_announcement replyA"
    by (simp add: replyA_def valid_defs ex_defs)
  have h2: "to_ipv4 (SourceProtAddress replyA) = Inr ipA"
    by (simp add: replyA_def ex_defs to_ipv4_def)
  have h3: "to_ipv4 (DstProtAddress replyA) = Inr (192, 168, 2, 254)"
    by (simp add: replyA_def ex_defs to_ipv4_def)
  have h4: "mode (exLogger 1 Map.empty) AND LogAllPackets = LogAllPackets"
    by (simp add: exLogger_def LogAllPackets_def)
  have e: "''Operation: ''
         @ (if Operation replyA = ARPRequest then ''Request''
            else if Operation replyA = ARPReply then ''Reply'' else '''')
         @ '', Source MAC: '' @ spec_colon_hex (SourceHwAddress replyA)
         @ '', Source IP: '' @ spec_dotted_decimal ipA
         @ '', Destination MAC: '' @ spec_colon_hex (DstHwAddress replyA)
         @ '', Destination IP: '' @ spec_dotted_decimal (192, 168, 2, 254)
       = ''Operation: Reply, Source MAC: 00:1a:2b:3c:4d:5e, Source IP: 192.168.2.10, Destination MAC: 00:00:00:00:00:00, Destination IP: 192.168.2.254''"
    by (simp add: replyA_def ex_defs const_defs hex2_def hexDigit_def digits_def
          spec_dotted_decimal_def spec_decimal.simps)
  from raw_dump_line [OF h1 h2 h3 h4, of "[]"]
  have r: "prettyPrint replyA = Inr ''Operation: Reply, Source MAC: 00:1a:2b:3c:4d:5e, Source IP: 192.168.2.10, Destination MAC: 00:00:00:00:00:00, Destination IP: 192.168.2.254''
   \<and> (\<exists>ev. snd (Log [] (exLogger 1 Map.empty) replyA)
          = ''Operation: Reply, Source MAC: 00:1a:2b:3c:4d:5e, Source IP: 192.168.2.10, Destination MAC: 00:00:00:00:00:00, Destination IP: 192.168.2.254'' # ev
        \<and> filter classification ev = ev)"
    by (simp only: e)
  from h1 h2 h3 h4 r show ?thesis by (intro conjI) (simp_all only:)
qed

section \<open>The invariant of the table\<close>

text \<open>
  C1. In every logger reached from \<open>NewLogger\<close> by calls of \<open>Log\<close> that return, no two
  different IP keys of the table hold the same hardware address. And when, in such a
  logger, a valid announcement brings a hardware address that the table holds under
  another IP, the call that sets the new entry also removes the old one.
\<close>

theorem no_self_conflict:
  assumes "reachable l"
  shows "(\<forall>a b h. arptable l a = Some h \<and> arptable l b = Some h \<longrightarrow> a = b)
     \<and> (\<forall>ks layer a b l' out.
           range_order ks (arptable l) \<and> valid_announcement layer
           \<and> to_ipv4 (SourceProtAddress layer) = Inr b
           \<and> arptable l a = Some (SourceHwAddress layer) \<and> a \<noteq> b
           \<and> Log ks l layer = (Inr l', out)
           \<longrightarrow> arptable l' a = None \<and> arptable l' b = Some (SourceHwAddress layer))"
proof (intro conjI allI impI)
  fix a b h
  assume "arptable l a = Some h \<and> arptable l b = Some h"
  then show "a = b" using reachable_inj [OF assms] by blast
next
  fix ks layer a b l' out
  assume h: "range_order ks (arptable l) \<and> valid_announcement layer
           \<and> to_ipv4 (SourceProtAddress layer) = Inr b
           \<and> arptable l a = Some (SourceHwAddress layer) \<and> a \<noteq> b
           \<and> Log ks l layer = (Inr l', out)"
  then have "fst (Log ks l layer)
      = Inr (l\<lparr>arptable := spec_update ks (arptable l) b (SourceHwAddress layer)\<rparr>)"
    by (intro Log_table) simp_all
  with h have "arptable l' = spec_update ks (arptable l) b (SourceHwAddress layer)" by auto
  also have "\<dots> = (\<lambda>k. if k = b then Some (SourceHwAddress layer)
                       else if arptable l k = Some (SourceHwAddress layer) then None
                       else arptable l k)"
    using h by (intro spec_update_char reachable_inj [OF assms]) simp
  finally have t: "arptable l' = (\<lambda>k. if k = b then Some (SourceHwAddress layer)
                       else if arptable l k = Some (SourceHwAddress layer) then None
                       else arptable l k)" .
  from h show "arptable l' a = None" by (simp add: t)
  show "arptable l' b = Some (SourceHwAddress layer)" by (simp add: t)
qed

theorem no_self_conflict_witness:
  "reachable (exLogger 2 [ipA \<mapsto> hwM1])
   \<and> range_order [ipA] (arptable (exLogger 2 [ipA \<mapsto> hwM1]))
   \<and> valid_announcement (announce ipB hwM1)
   \<and> to_ipv4 (SourceProtAddress (announce ipB hwM1)) = Inr ipB
   \<and> arptable (exLogger 2 [ipA \<mapsto> hwM1]) ipA = Some (SourceHwAddress (announce ipB hwM1))
   \<and> ipA \<noteq> ipB
   \<and> fst (Log [ipA] (exLogger 2 [ipA \<mapsto> hwM1]) (announce ipB hwM1))
       = Inr (exLogger 2 [ipB \<mapsto> hwM1])
   \<and> arptable (exLogger 2 [ipB \<mapsto> hwM1]) ipA = None
   \<and> arptable (exLogger 2 [ipB \<mapsto> hwM1]) ipB = Some hwM1
   \<and> \<not> (arptable (exLogger 2 [ipA \<mapsto> hwM1]) ipA = Some hwM1
          \<and> arptable (exLogger 2 [ipA \<mapsto> hwM1]) ipB = Some hwM1)"
proof -
  note t = no_self_conflict [OF reachable_example]
  have r: "range_order [ipA] (arptable (exLogger 2 [ipA \<mapsto> hwM1]))"
    by (simp add: exLogger_def range_order_def)
  have a: "arptable (exLogger 2 [ipA \<mapsto> hwM1]) ipA = Some (SourceHwAddress (announce ipB hwM1))"
    by (simp add: exLogger_def example_facts(7))
  have d: "ipA \<noteq> ipB" using example_facts(8) by simp
  have u: "spec_update [ipA] [ipA \<mapsto> hwM1] ipB hwM1 = [ipB \<mapsto> hwM1]"
    using example_facts(8) by (simp add: spec_update_def spec_findByHwAddr_def)
  have f: "fst (Log [ipA] (exLogger 2 [ipA \<mapsto> hwM1]) (announce ipB hwM1))
       = Inr (exLogger 2 [ipB \<mapsto> hwM1])"
    by (simp add: Log_table [OF example_facts(2,5,7)]) (simp add: exLogger_def u)
  then have L: "Log [ipA] (exLogger 2 [ipA \<mapsto> hwM1]) (announce ipB hwM1)
      = (Inr (exLogger 2 [ipB \<mapsto> hwM1]),
         snd (Log [ipA] (exLogger 2 [ipA \<mapsto> hwM1]) (announce ipB hwM1)))"
    by (cases "Log [ipA] (exLogger 2 [ipA \<mapsto> hwM1]) (announce ipB hwM1)") simp
  from t [THEN conjunct2, rule_format, OF conjI [OF r conjI [OF example_facts(2)
        conjI [OF example_facts(5) conjI [OF a conjI [OF d L]]]]]]
  have m: "arptable (exLogger 2 [ipB \<mapsto> hwM1]) ipA = None"
    "arptable (exLogger 2 [ipB \<mapsto> hwM1]) ipB = Some hwM1"
    by (simp_all add: example_facts(7))
  have i: "\<not> (arptable (exLogger 2 [ipA \<mapsto> hwM1]) ipA = Some hwM1
          \<and> arptable (exLogger 2 [ipA \<mapsto> hwM1]) ipB = Some hwM1)"
    using t [THEN conjunct1, rule_format, of ipA hwM1 ipB] d by blast
  from reachable_example r example_facts(2,5) a d f m i show ?thesis by (intro conjI)
qed

section \<open>Panics\<close>

text \<open>
  C10. The two checks of \<open>Log\<close> read the declared size fields only: an announcement
  that fails them is rejected without a panic whatever its slices hold. One that passes
  them makes \<open>Log\<close> panic exactly when the sender protocol address has fewer than four
  bytes or, under dump-all mode, the destination protocol address has; when the slices
  have the declared sizes \<open>Log\<close> returns.
\<close>

theorem Log_panics_on_short_addresses:
  "(\<not> passes_validation layer \<longrightarrow> fst (Log ks l layer) = Inr l)
   \<and> (passes_validation layer \<longrightarrow>
        (fst (Log ks l layer) = Inl Panic
           \<longleftrightarrow> length (SourceProtAddress layer) < 4
               \<or> (mode l AND LogAllPackets = LogAllPackets \<and> length (DstProtAddress layer) < 4)))
   \<and> (passes_validation layer \<and> declared_sizes_hold layer \<longrightarrow>
        (\<exists>l'. fst (Log ks l layer) = Inr l'))"
proof (intro conjI impI)
  assume "\<not> passes_validation layer"
  then show "fst (Log ks l layer) = Inr l"
    by (auto simp: passes_validation_def Log_def)
next
  assume v: "passes_validation layer"
  show "fst (Log ks l layer) = Inl Panic
           \<longleftrightarrow> length (SourceProtAddress layer) < 4
               \<or> (mode l AND LogAllPackets = LogAllPackets \<and> length (DstProtAddress layer) < 4)"
  proof (cases "length (SourceProtAddress layer) < 4
               \<or> (mode l AND LogAllPackets = LogAllPackets \<and> length (DstProtAddress layer) < 4)")
    case True
    then show ?thesis by (simp add: Log_panics [OF v True])
  next
    case False
    then obtain ip where ip: "to_ipv4 (SourceProtAddress layer) = Inr ip"
      using to_ipv4_Inr [of "SourceProtAddress layer"] by auto
    from False have "mode l AND LogAllPackets = LogAllPackets \<longrightarrow> 4 \<le> length (DstProtAddress layer)"
      by auto
    note Log_returns [OF v ip this refl, of ks]
    then have "fst (Log ks l layer) \<noteq> Inl Panic" by (simp split: option.splits)
    with False show ?thesis by simp
  qed
next
  assume "passes_validation layer \<and> declared_sizes_hold layer"
  then have v: "valid_announcement layer" by (simp add: valid_announcement_def)
  then obtain ip where ip: "to_ipv4 (SourceProtAddress layer) = Inr ip"
    using to_ipv4_Inr [of "SourceProtAddress layer"] by (auto simp: valid_defs)
  show "\<exists>l'. fst (Log ks l layer) = Inr l'"
    by (simp add: Log_table [OF v ip refl])
qed

theorem Log_panics_on_short_addresses_witness:
  "passes_validation shortSrc \<and> length (SourceProtAddress shortSrc) = 2
   \<and> fst (Log [] (exLogger 2 Map.empty) shortSrc) = Inl Panic
   \<and> passes_validation shortDst \<and> length (DstProtAddress shortDst) = 3
   \<and> mode (exLogger 3 Map.empty) AND LogAllPackets = LogAllPackets
   \<and> fst (Log [] (exLogger 3 Map.empty) shortDst) = Inl Panic
   \<and> fst (Log [] (exLogger 2 Map.empty) shortDst) \<noteq> Inl Panic
   \<and> passes_validation (announce ipA hwM1) \<and> declared_sizes_hold (announce ipA hwM1)
   \<and> (\<exists>l'. fst (Log [] (exLogger 3 Map.empty) (announce ipA hwM1)) = Inr l')
   \<and> HwAddressSize shortHw = 5
   \<and> fst (Log [] (exLogger 3 Map.empty) shortHw) = Inr (exLogger 3 Map.empty)"
proof -
  have v1: "passes_validation shortSrc" by (simp add: shortSrc_def ex_defs passes_validation_def)
  have s1: "length (SourceProtAddress shortSrc) = 2" by (simp add: shortSrc_def ex_defs)
  have v2: "passes_validation shortDst" by (simp add: shortDst_def ex_defs passes_validation_def)
  have s2: "length (DstProtAddress shortDst) = 3" by (simp add: shortDst_def ex_defs)
  have s3: "length (SourceProtAddress shortDst) = 4" by (simp add: shortDst_def ex_defs)
  have m3: "mode (exLogger 3 Map.empty) AND LogAllPackets = LogAllPackets"
    by (simp add: exLogger_def LogAllPackets_def)
  have m2: "mode (exLogger 2 Map.empty) AND LogAllPackets \<noteq> LogAllPackets"
    by (simp add: exLogger_def LogAllPackets_def)
  have v3: "passes_validation (announce ipA hwM1)" "declared_sizes_hold (announce ipA hwM1)"
    using example_facts(1) by (simp_all add: valid_announcement_def)
  have s4: "HwAddressSize shortHw = 5" by (simp add: shortHw_def ex_defs)
  then have v4: "\<not> passes_validation shortHw" by (simp add: passes_validation_def)
  have r1: "fst (Log [] (exLogger 2 Map.empty) shortSrc) = Inl Panic"
    using Log_panics_on_short_addresses [of shortSrc "[]" "exLogger 2 Map.empty"] v1 s1 by simp
  have r2: "fst (Log [] (exLogger 3 Map.empty) shortDst) = Inl Panic"
    using Log_panics_on_short_addresses [of shortDst "[]" "exLogger 3 Map.empty"] v2 s2 m3 by simp
  have r3: "fst (Log [] (exLogger 2 Map.empty) shortDst) \<noteq> Inl Panic"
    using Log_panics_on_short_addresses [of shortDst "[]" "exLogger 2 Map.empty"] v2 s3 m2 by simp
  have r4: "\<exists>l'. fst (Log [] (exLogger 3 Map.empty) (announce ipA hwM1)) = Inr l'"
    using Log_panics_on_short_addresses [of "announce ipA hwM1" "[]" "exLogger 3 Map.empty"] v3
    by blast
  have r5: "fst (Log [] (exLogger 3 Map.empty) shortHw) = Inr (exLogger 3 Map.empty)"
    using Log_panics_on_short_addresses [of shortHw "[]" "exLogger 3 Map.empty"] v4 by blast
  from v1 s1 r1 v2 s2 m3 r2 r3 v3 r4 s4 r5 show ?thesis by (intro conjI)
qed

end
